theory Spec2Isabelle
  imports Complex_Main
begin

section \<open>Python exceptions and fallible computations\<close>

text \<open>
  Every function of the repository runs on top of the tensor framework, whose operations
  raise on ill-shaped arguments; Python itself raises on an unbound local, a missing
  attribute or an exhausted iterator. A computation that may raise returns
  \<open>error + 'a\<close>, with \<open>Inl\<close> for the exception.
\<close>

datatype error =
    InvalidArgumentError
  | ValueError
  | IndexError
  | AttributeError
  | UnboundLocalError
  | StopIteration
  | ZeroDivisionError
  | TypeError

definition and_then :: "error + 'a \<Rightarrow> ('a \<Rightarrow> error + 'b) \<Rightarrow> error + 'b" where
  "and_then m f = (case m of Inl e \<Rightarrow> Inl e | Inr x \<Rightarrow> f x)"

section \<open>Scalars and tensors of the framework\<close>

text \<open>
  Tensor entries are finite floating-point numbers, idealised as real numbers (rounding and
  overflow are not modelled). A scalar result of a reduction is either a number or the
  not-a-number value that the framework's mean produces on an empty tensor (0 / 0).
  Comparisons with \<open>NaN\<close> are false, and arithmetic propagates it.
\<close>

datatype scalar = Num real | NaN

fun fadd :: "scalar \<Rightarrow> scalar \<Rightarrow> scalar" where
  "fadd (Num a) (Num b) = Num (a + b)"
| "fadd _ _ = NaN"

fun fmul :: "scalar \<Rightarrow> scalar \<Rightarrow> scalar" where
  "fmul (Num a) (Num b) = Num (a * b)"
| "fmul _ _ = NaN"



text \<open>
  A tensor is its shape and the row-major list of its entries; a tensor of the framework
  always has as many entries as its shape says.
\<close>

record tensor =
  shape :: "nat list"
  elems :: "real list"


text \<open>
  Broadcasting of the elementwise operators. Shapes are aligned at their last axis; two
  dimensions are compatible when they are equal or one of them is 1. The functions below
  work on reversed shapes (innermost dimension first).
\<close>

fun broadcast_dims :: "nat list \<Rightarrow> nat list \<Rightarrow> nat list option" where
  "broadcast_dims [] ys = Some ys"
| "broadcast_dims xs [] = Some xs"
| "broadcast_dims (x # xs) (y # ys) =
     (if x = y \<or> y = 1 then map_option ((#) x) (broadcast_dims xs ys)
      else if x = 1 then map_option ((#) y) (broadcast_dims xs ys)
      else None)"

definition broadcast_shape :: "nat list \<Rightarrow> nat list \<Rightarrow> nat list option" where
  "broadcast_shape a b = map_option rev (broadcast_dims (rev a) (rev b))"

fun unravel :: "nat list \<Rightarrow> nat \<Rightarrow> nat list" where
  "unravel [] i = []"
| "unravel (d # ds) i = (i mod d) # unravel ds (i div d)"

fun ravel :: "nat list \<Rightarrow> nat list \<Rightarrow> nat" where
  "ravel (d # ds) (k # ks) = k + d * ravel ds ks"
| "ravel _ _ = 0"

definition source_index :: "nat list \<Rightarrow> nat list \<Rightarrow> nat \<Rightarrow> nat" where
  "source_index src_dims out_dims i =
     ravel src_dims (map2 (\<lambda>d k. if d = 1 then 0 else k) src_dims (unravel out_dims i))"

definition broadcast_to :: "tensor \<Rightarrow> nat list \<Rightarrow> real list" where
  "broadcast_to t s =
     map (\<lambda>i. elems t ! source_index (rev (shape t)) (rev s) i) [0..<prod_list s]"

text \<open>The operator \<^verbatim>\<open>a - b\<close> on tensors, \<^verbatim>\<open>tf.abs\<close>, \<^verbatim>\<open>tf.reduce_mean\<close>,
  \<^verbatim>\<open>tf.ones_like\<close> and \<^verbatim>\<open>tf.zeros_like\<close>.\<close>

definition tf_subtract :: "tensor \<Rightarrow> tensor \<Rightarrow> error + tensor" where
  "tf_subtract a b =
     (case broadcast_shape (shape a) (shape b) of
        None \<Rightarrow> Inl InvalidArgumentError
      | Some s \<Rightarrow> Inr \<lparr>shape = s, elems = map2 (-) (broadcast_to a s) (broadcast_to b s)\<rparr>)"

definition tf_abs :: "tensor \<Rightarrow> tensor" where
  "tf_abs t = \<lparr>shape = shape t, elems = map abs (elems t)\<rparr>"

definition tf_reduce_mean :: "tensor \<Rightarrow> scalar" where
  "tf_reduce_mean t =
     (if elems t = [] then NaN else Num (sum_list (elems t) / real (length (elems t))))"

definition tf_ones_like :: "tensor \<Rightarrow> tensor" where
  "tf_ones_like t = \<lparr>shape = shape t, elems = map (\<lambda>_. 1) (elems t)\<rparr>"

definition tf_zeros_like :: "tensor \<Rightarrow> tensor" where
  "tf_zeros_like t = \<lparr>shape = shape t, elems = map (\<lambda>_. 0) (elems t)\<rparr>"

subsection \<open>The loss object \<^verbatim>\<open>tf.keras.losses.BinaryCrossentropy(from_logits=True)\<close>\<close>

text \<open>
  The framework's loss: the elementwise sigmoid cross-entropy of the logits \<open>x\<close> against the
  labels \<open>z\<close>, \<open>max(x, 0) - x * z + log(1 + exp(-|x|))\<close>, averaged over the last axis and then
  over the remaining entries. The second average divides without producing a NaN (an empty
  batch gives 0); the first one is a plain mean (an empty last axis gives NaN). A rank-0
  argument has no last axis to reduce.
\<close>

definition sigmoid_cross_entropy_with_logits :: "real \<Rightarrow> real \<Rightarrow> real" where
  "sigmoid_cross_entropy_with_logits z x = max x 0 - x * z + ln (1 + exp (- \<bar>x\<bar>))"

definition rows_of :: "nat \<Rightarrow> nat \<Rightarrow> real list \<Rightarrow> real list list" where
  "rows_of n d xs = map (\<lambda>i. take d (drop (i * d) xs)) [0..<n]"

definition BinaryCrossentropy_from_logits :: "tensor \<Rightarrow> tensor \<Rightarrow> error + scalar" where
  "BinaryCrossentropy_from_logits y_true y_pred =
     (if shape y_true \<noteq> shape y_pred then Inl ValueError
      else if shape y_pred = [] then Inl InvalidArgumentError
      else
        let losses = map2 sigmoid_cross_entropy_with_logits (elems y_true) (elems y_pred);
            n = prod_list (butlast (shape y_pred));
            d = last (shape y_pred)
        in if n = 0 then Inr (Num 0)
           else if d = 0 then Inr NaN
           else Inr (Num (sum_list (map (\<lambda>r. sum_list r / real d) (rows_of n d losses)) / real n)))"

section \<open>The CycleGAN trainer (\<^verbatim>\<open>cyclegan/CycleGan.py\<close>)\<close>

text \<open>
  A Keras model is a function of its trainable variables and its input, called in training
  or in inference mode. Networks are taken as deterministic functions: dropout noise and
  the moving statistics of batch normalisation are not modelled.
\<close>

record model =
  call_fn :: "bool \<Rightarrow> tensor list \<Rightarrow> tensor \<Rightarrow> error + tensor"
  trainable_variables :: "tensor list"

definition apply_model :: "model \<Rightarrow> bool \<Rightarrow> tensor \<Rightarrow> error + tensor" where
  "apply_model m training x = call_fn m training (trainable_variables m) x"

text \<open>
  An Adam optimizer: its hyperparameters, its step counter and its moment slots (one pair
  per variable, created at the first step). \<open>Adam lr b1\<close> is the constructor call
  \<^verbatim>\<open>tf.keras.optimizers.Adam(learning_rate=lr, beta_1=b1)\<close>, which leaves the other
  hyperparameters at the framework's defaults.
\<close>

record adam =
  learning_rate :: real
  beta_1 :: real
  beta_2 :: real
  epsilon :: real
  iterations :: nat
  moments :: "(tensor \<times> tensor) list"

definition Adam :: "real \<Rightarrow> real \<Rightarrow> adam" where
  "Adam lr b1 =
     \<lparr>learning_rate = lr, beta_1 = b1, beta_2 = 999 / 1000, epsilon = 1 / 10 ^ 7,
      iterations = 0, moments = []\<rparr>"

text \<open>
  \<^verbatim>\<open>tf.train.Checkpoint\<close> tracks the four models and four optimizers of the trainer by
  reference; its own state is the counter of the checkpoints written so far.
\<close>

record checkpoint =
  save_counter :: nat

text \<open>A name (an instance attribute, a local variable) is bound to a value, or was never
  assigned; reading an unbound name raises.\<close>

datatype 'a slot = Unbound | Bound 'a

record trainer =
  generator_g :: model
  generator_f :: model
  discriminator_x :: model
  discriminator_y :: model
  LAMBDA :: int
  loss_obj :: "tensor \<Rightarrow> tensor \<Rightarrow> error + scalar"
  generator_g_optimizer :: adam
  generator_f_optimizer :: adam
  discriminator_x_optimizer :: adam
  discriminator_y_optimizer :: adam
  checkpoint :: checkpoint
  checkpoint_prefix :: "string option slot"

text \<open>
  \<^verbatim>\<open>CycleGanTraining.__init__\<close>. The arguments \<open>b2\<close> (\<^verbatim>\<open>beta_2\<close>) and \<open>prefix\<close>
  (\<^verbatim>\<open>checkpoint_prefix\<close>) are accepted, and no statement of the constructor reads them:
  the optimizers are built from the learning rate and \<^verbatim>\<open>beta_1\<close>, and the attribute
  \<^verbatim>\<open>self.checkpoint_prefix\<close> is never assigned.
\<close>

definition init ::
  "model \<Rightarrow> model \<Rightarrow> model \<Rightarrow> model \<Rightarrow> real \<Rightarrow> real \<Rightarrow> real \<Rightarrow> string option \<Rightarrow> trainer" where
  "init g f dx dy lr b1 b2 prefix =
     \<lparr>generator_g = g,
      generator_f = f,
      discriminator_x = dx,
      discriminator_y = dy,
      LAMBDA = 10,
      loss_obj = BinaryCrossentropy_from_logits,
      generator_g_optimizer = Adam lr b1,
      generator_f_optimizer = Adam lr b1,
      discriminator_x_optimizer = Adam lr b1,
      discriminator_y_optimizer = Adam lr b1,
      checkpoint = \<lparr>save_counter = 0\<rparr>,
      checkpoint_prefix = Unbound\<rparr>"

subsection \<open>The loss functions\<close>

definition discriminator_loss :: "trainer \<Rightarrow> tensor \<Rightarrow> tensor \<Rightarrow> error + scalar" where
  "discriminator_loss self real' generated =
     and_then (loss_obj self (tf_ones_like real') real') (\<lambda>real_loss.
     and_then (loss_obj self (tf_zeros_like generated) generated) (\<lambda>generated_loss.
     let total_disc_loss = fadd real_loss generated_loss
     in Inr (fmul total_disc_loss (Num 0.5))))"

definition generator_loss :: "trainer \<Rightarrow> tensor \<Rightarrow> error + scalar" where
  "generator_loss self generated = loss_obj self (tf_ones_like generated) generated"

definition calc_cycle_loss :: "trainer \<Rightarrow> tensor \<Rightarrow> tensor \<Rightarrow> error + scalar" where
  "calc_cycle_loss self real_image cycled_image =
     and_then (tf_subtract real_image cycled_image) (\<lambda>diff.
     let loss1 = tf_reduce_mean (tf_abs diff)
     in Inr (fmul (Num (of_int (LAMBDA self))) loss1))"

definition identity_loss :: "trainer \<Rightarrow> tensor \<Rightarrow> tensor \<Rightarrow> error + scalar" where
  "identity_loss self real_image same_image =
     and_then (tf_subtract real_image same_image) (\<lambda>diff.
     let loss = tf_reduce_mean (tf_abs diff)
     in Inr (fmul (Num (of_int (LAMBDA self) * 0.5)) loss))"

text \<open>
  The two loss formulas as the specification words them, for comparison with the code:
  \<open>0.5 * (BCE(ones, r) + BCE(zeros, g))\<close> and \<open>BCE(ones, g)\<close>.
\<close>

definition spec_discriminator_loss :: "tensor \<Rightarrow> tensor \<Rightarrow> error + scalar" where
  "spec_discriminator_loss r g =
     and_then (BinaryCrossentropy_from_logits (tf_ones_like r) r) (\<lambda>bce_real.
     and_then (BinaryCrossentropy_from_logits (tf_zeros_like g) g) (\<lambda>bce_generated.
     Inr (fmul (Num 0.5) (fadd bce_real bce_generated))))"

definition spec_generator_loss :: "tensor \<Rightarrow> error + scalar" where
  "spec_generator_loss g = BinaryCrossentropy_from_logits (tf_ones_like g) g"

subsection \<open>One training step\<close>

text \<open>
  The framework's reverse-mode differentiation and optimizer step are parameters of the
  model. \<open>tape_gradient objective vs\<close> stands for \<^verbatim>\<open>tape.gradient(target, sources)\<close>: the
  target recorded on the tape is given as a function of the source variables (everything
  else held at its recorded value), \<open>vs\<close> are the current values of the sources, and the
  result has one gradient per source (\<open>None\<close> for a source the target does not depend on).
  \<open>apply_gradients opt gvs\<close> stands for \<^verbatim>\<open>opt.apply_gradients(zip(grads, vars))\<close>: it
  returns the optimizer and the variables as the call leaves them.
\<close>

record framework =
  tape_gradient :: "(tensor list \<Rightarrow> error + scalar) \<Rightarrow> tensor list \<Rightarrow> tensor option list"
  apply_gradients :: "adam \<Rightarrow> (tensor option \<times> tensor) list \<Rightarrow> error + (adam \<times> tensor list)"

text \<open>The local variables of \<^verbatim>\<open>train_step\<close> at the end of the block recorded on the tape.\<close>

record tape =
  fake_y :: tensor
  cycled_x :: tensor
  fake_x :: tensor
  cycled_y :: tensor
  same_x :: tensor
  same_y :: tensor
  disc_real_x :: tensor
  disc_real_y :: tensor
  disc_fake_x :: tensor
  disc_fake_y :: tensor
  gen_g_loss :: scalar
  gen_f_loss :: scalar
  total_cycle_loss :: scalar
  total_gen_g_loss :: scalar
  total_gen_f_loss :: scalar
  disc_x_loss :: scalar
  disc_y_loss :: scalar

text \<open>The block \<^verbatim>\<open>with tf.GradientTape(persistent=True) as tape:\<close> of \<^verbatim>\<open>train_step\<close>.\<close>

definition forward_pass :: "trainer \<Rightarrow> tensor \<Rightarrow> tensor \<Rightarrow> error + tape" where
  "forward_pass self real_x real_y =
     and_then (apply_model (generator_g self) True real_x) (\<lambda>fake_y'.
     and_then (apply_model (generator_f self) True fake_y') (\<lambda>cycled_x'.
     and_then (apply_model (generator_f self) True real_y) (\<lambda>fake_x'.
     and_then (apply_model (generator_g self) True fake_x') (\<lambda>cycled_y'.
     and_then (apply_model (generator_f self) True real_x) (\<lambda>same_x'.
     and_then (apply_model (generator_g self) True real_y) (\<lambda>same_y'.
     and_then (apply_model (discriminator_x self) True real_x) (\<lambda>disc_real_x'.
     and_then (apply_model (discriminator_y self) True real_y) (\<lambda>disc_real_y'.
     and_then (apply_model (discriminator_x self) True fake_x') (\<lambda>disc_fake_x'.
     and_then (apply_model (discriminator_y self) True fake_y') (\<lambda>disc_fake_y'.
     and_then (generator_loss self disc_fake_y') (\<lambda>gen_g_loss'.
     and_then (generator_loss self disc_fake_x') (\<lambda>gen_f_loss'.
     and_then (calc_cycle_loss self real_x cycled_x') (\<lambda>cycle_loss_x.
     and_then (calc_cycle_loss self real_y cycled_y') (\<lambda>cycle_loss_y.
     let total_cycle_loss' = fadd cycle_loss_x cycle_loss_y in
     and_then (identity_loss self real_y same_y') (\<lambda>identity_loss_y.
     let total_gen_g_loss' = fadd (fadd gen_g_loss' total_cycle_loss') identity_loss_y in
     and_then (identity_loss self real_x same_x') (\<lambda>identity_loss_x.
     let total_gen_f_loss' = fadd (fadd gen_f_loss' total_cycle_loss') identity_loss_x in
     and_then (discriminator_loss self disc_real_x' disc_fake_x') (\<lambda>disc_x_loss'.
     and_then (discriminator_loss self disc_real_y' disc_fake_y') (\<lambda>disc_y_loss'.
     Inr \<lparr>fake_y = fake_y', cycled_x = cycled_x', fake_x = fake_x', cycled_y = cycled_y',
          same_x = same_x', same_y = same_y',
          disc_real_x = disc_real_x', disc_real_y = disc_real_y',
          disc_fake_x = disc_fake_x', disc_fake_y = disc_fake_y',
          gen_g_loss = gen_g_loss', gen_f_loss = gen_f_loss',
          total_cycle_loss = total_cycle_loss',
          total_gen_g_loss = total_gen_g_loss', total_gen_f_loss = total_gen_f_loss',
          disc_x_loss = disc_x_loss', disc_y_loss = disc_y_loss'\<rparr>))))))))))))))))))"

text \<open>
  The four targets as functions of the variables they are differentiated by: the recorded
  computation with one network's trainable variables replaced, all else as recorded.
\<close>

definition set_variables :: "model \<Rightarrow> tensor list \<Rightarrow> model" where
  "set_variables m vs = m\<lparr>trainable_variables := vs\<rparr>"

definition generator_g_objective :: "trainer \<Rightarrow> tensor \<Rightarrow> tensor \<Rightarrow> tensor list \<Rightarrow> error + scalar" where
  "generator_g_objective self real_x real_y vs =
     map_sum id total_gen_g_loss
       (forward_pass (self\<lparr>generator_g := set_variables (generator_g self) vs\<rparr>) real_x real_y)"

definition generator_f_objective :: "trainer \<Rightarrow> tensor \<Rightarrow> tensor \<Rightarrow> tensor list \<Rightarrow> error + scalar" where
  "generator_f_objective self real_x real_y vs =
     map_sum id total_gen_f_loss
       (forward_pass (self\<lparr>generator_f := set_variables (generator_f self) vs\<rparr>) real_x real_y)"

definition discriminator_x_objective :: "trainer \<Rightarrow> tensor \<Rightarrow> tensor \<Rightarrow> tensor list \<Rightarrow> error + scalar" where
  "discriminator_x_objective self real_x real_y vs =
     map_sum id disc_x_loss
       (forward_pass (self\<lparr>discriminator_x := set_variables (discriminator_x self) vs\<rparr>) real_x real_y)"

definition discriminator_y_objective :: "trainer \<Rightarrow> tensor \<Rightarrow> tensor \<Rightarrow> tensor list \<Rightarrow> error + scalar" where
  "discriminator_y_objective self real_x real_y vs =
     map_sum id disc_y_loss
       (forward_pass (self\<lparr>discriminator_y := set_variables (discriminator_y self) vs\<rparr>) real_x real_y)"

text \<open>
  \<^verbatim>\<open>CycleGanTraining.train_step\<close>: the recorded block, the four gradients (all taken from
  the tape, that is at the variables' values before any update), the four optimizer steps
  in the order of the source, and the returned pair. The result carries the trainer as the
  step leaves it.
\<close>

definition train_step ::
  "framework \<Rightarrow> trainer \<Rightarrow> tensor \<Rightarrow> tensor \<Rightarrow> error + ((scalar \<times> scalar) \<times> trainer)" where
  "train_step tf self real_x real_y =
     and_then (forward_pass self real_x real_y) (\<lambda>t.
     let generator_g_gradients =
           tape_gradient tf (generator_g_objective self real_x real_y)
             (trainable_variables (generator_g self));
         generator_f_gradients =
           tape_gradient tf (generator_f_objective self real_x real_y)
             (trainable_variables (generator_f self));
         discriminator_x_gradients =
           tape_gradient tf (discriminator_x_objective self real_x real_y)
             (trainable_variables (discriminator_x self));
         discriminator_y_gradients =
           tape_gradient tf (discriminator_y_objective self real_x real_y)
             (trainable_variables (discriminator_y self))
     in
     and_then (apply_gradients tf (generator_g_optimizer self)
                 (zip generator_g_gradients (trainable_variables (generator_g self))))
       (\<lambda>(opt_g, vars_g).
     and_then (apply_gradients tf (generator_f_optimizer self)
                 (zip generator_f_gradients (trainable_variables (generator_f self))))
       (\<lambda>(opt_f, vars_f).
     and_then (apply_gradients tf (discriminator_x_optimizer self)
                 (zip discriminator_x_gradients (trainable_variables (discriminator_x self))))
       (\<lambda>(opt_dx, vars_dx).
     and_then (apply_gradients tf (discriminator_y_optimizer self)
                 (zip discriminator_y_gradients (trainable_variables (discriminator_y self))))
       (\<lambda>(opt_dy, vars_dy).
     Inr ((disc_x_loss t, total_gen_g_loss t),
          self\<lparr>generator_g := set_variables (generator_g self) vars_g,
               generator_f := set_variables (generator_f self) vars_f,
               discriminator_x := set_variables (discriminator_x self) vars_dx,
               discriminator_y := set_variables (discriminator_y self) vars_dy,
               generator_g_optimizer := opt_g,
               generator_f_optimizer := opt_f,
               discriminator_x_optimizer := opt_dx,
               discriminator_y_optimizer := opt_dy\<rparr>))))))"





subsection \<open>The training loop\<close>

text \<open>
  A dataset is the list of its batches, the same at every iteration.
  \<open>next_iter\<close> is \<^verbatim>\<open>next(iter(dataset))\<close>, and \<open>first_image\<close> is the index \<^verbatim>\<open>t[0]\<close>.
\<close>

definition next_iter :: "tensor list \<Rightarrow> error + tensor" where
  "next_iter dataset = (case dataset of [] \<Rightarrow> Inl StopIteration | batch # _ \<Rightarrow> Inr batch)"

definition first_image :: "tensor \<Rightarrow> error + tensor" where
  "first_image t =
     (case shape t of
        [] \<Rightarrow> Inl InvalidArgumentError
      | d # ds \<Rightarrow>
          if d = 0 then Inl InvalidArgumentError
          else Inr \<lparr>shape = ds, elems = take (prod_list ds) (elems t)\<rparr>)"

text \<open>
  The plotting library and the notebook display are outside the repository: their calls
  are parameters of the model, each returning normally or raising (\<^verbatim>\<open>plt.imshow\<close>, for
  one, raises on image data whose shape it cannot draw). What they draw is not modelled.
\<close>

record display =
  plt_figure :: "nat \<times> nat \<Rightarrow> error + unit"
  plt_subplot :: "nat \<Rightarrow> nat \<Rightarrow> nat \<Rightarrow> error + unit"
  plt_title :: "string \<Rightarrow> error + unit"
  plt_imshow :: "tensor \<Rightarrow> error + unit"
  plt_axis :: "string \<Rightarrow> error + unit"
  plt_show :: "error + unit"
  clear_output :: "bool \<Rightarrow> error + unit"

text \<open>The pixel values brought from \<open>[-1, 1]\<close> to \<open>[0, 1]\<close>: \<^verbatim>\<open>image * 0.5 + 0.5\<close>.\<close>

definition to_unit_range :: "tensor \<Rightarrow> tensor" where
  "to_unit_range picture =
     \<lparr>shape = shape picture, elems = map (\<lambda>v. v * 0.5 + 0.5) (elems picture)\<rparr>"

text \<open>The loop \<^verbatim>\<open>for i in range(2)\<close> of \<^verbatim>\<open>generate_images\<close>, over the indices still to do.\<close>

fun plot_images :: "display \<Rightarrow> tensor list \<Rightarrow> string list \<Rightarrow> nat list \<Rightarrow> error + unit" where
  "plot_images ui display_list title [] = Inr ()"
| "plot_images ui display_list title (i # rest) =
     and_then (plt_subplot ui 1 2 (i + 1)) (\<lambda>_.
     and_then (plt_title ui (title ! i)) (\<lambda>_.
     and_then (plt_imshow ui (to_unit_range (display_list ! i))) (\<lambda>_.
     and_then (plt_axis ui ''off'') (\<lambda>_.
     plot_images ui display_list title rest))))"

text \<open>
  \<^verbatim>\<open>CycleGanTraining.generate_images\<close>: the model is called in inference mode, and the
  first image of the input and of the prediction are drawn side by side.
\<close>

definition generate_images :: "display \<Rightarrow> trainer \<Rightarrow> model \<Rightarrow> tensor \<Rightarrow> error + unit" where
  "generate_images ui self m test_input =
     and_then (apply_model m False test_input) (\<lambda>prediction.
     and_then (plt_figure ui (12, 12)) (\<lambda>_.
     and_then (first_image test_input) (\<lambda>input_image.
     and_then (first_image prediction) (\<lambda>predicted_image.
     let display_list = [input_image, predicted_image];
         title = [''Input Image'', ''Predicted Image'']
     in and_then (plot_images ui display_list title [0, 1]) (\<lambda>_.
        plt_show ui)))))"

text \<open>
  The inner loop of \<^verbatim>\<open>train\<close> over the zipped datasets. It carries the trainer and the
  pair of local variables \<^verbatim>\<open>disc_loss, gen_loss\<close>, which stay unbound until a first
  batch is processed.
\<close>

fun run_batches ::
  "framework \<Rightarrow> trainer \<Rightarrow> (scalar \<times> scalar) slot \<Rightarrow> (tensor \<times> tensor) list
   \<Rightarrow> error + ((scalar \<times> scalar) slot \<times> trainer)" where
  "run_batches tf self losses [] = Inr (losses, self)"
| "run_batches tf self losses ((image_x, image_y) # rest) =
     and_then (train_step tf self image_x image_y) (\<lambda>(step_losses, self').
     run_batches tf self' (Bound step_losses) rest)"

text \<open>The local variables of \<^verbatim>\<open>train\<close> that live across epochs, with the trainer.\<close>

record train_locals =
  trainer_state :: trainer
  last_losses :: "(scalar \<times> scalar) slot"
  gen_loss_list :: "scalar list"
  disc_loss_list :: "scalar list"
  epoch_list :: "int list"

fun train_epochs ::
  "framework \<Rightarrow> display \<Rightarrow> tensor list \<Rightarrow> tensor list \<Rightarrow> int list \<Rightarrow> train_locals
   \<Rightarrow> error + train_locals" where
  "train_epochs tf ui train_img train_tar [] st = Inr st"
| "train_epochs tf ui train_img train_tar (epoch # rest) st =
     and_then (run_batches tf (trainer_state st) (last_losses st) (zip train_img train_tar))
       (\<lambda>(losses', self').
     and_then (clear_output ui True) (\<lambda>_.
     and_then (next_iter train_img) (\<lambda>sample_img.
     and_then (next_iter train_tar) (\<lambda>sample_tar.
     and_then (generate_images ui self' (generator_g self') sample_img) (\<lambda>_.
     case losses' of
       Unbound \<Rightarrow> Inl UnboundLocalError
     | Bound (disc_loss, gen_loss) \<Rightarrow>
         train_epochs tf ui train_img train_tar rest
           \<lparr>trainer_state = self', last_losses = losses',
            gen_loss_list = gen_loss_list st @ [gen_loss],
            disc_loss_list = disc_loss_list st @ [disc_loss],
            epoch_list = epoch_list st @ [epoch + 1]\<rparr>)))))"

text \<open>
  \<^verbatim>\<open>CycleGanTraining.train\<close>: the epochs \<^verbatim>\<open>range(epochs)\<close> in order, and the array of the
  three lists as the returned value (with the trainer as the run leaves it). Printing and
  reading the clock are left out.
\<close>

definition train ::
  "framework \<Rightarrow> display \<Rightarrow> trainer \<Rightarrow> tensor list \<Rightarrow> tensor list \<Rightarrow> int
   \<Rightarrow> error + ((int list \<times> scalar list \<times> scalar list) \<times> trainer)" where
  "train tf ui self train_img train_tar epochs =
     and_then
       (train_epochs tf ui train_img train_tar [0..epochs - 1]
          \<lparr>trainer_state = self, last_losses = Unbound,
           gen_loss_list = [], disc_loss_list = [], epoch_list = []\<rparr>)
       (\<lambda>st. Inr ((epoch_list st, gen_loss_list st, disc_loss_list st), trainer_state st))"

text \<open>
  To say in which state a step ran: the trainer after a sequence of steps, and the
  trainer after a number of complete epochs over the same batches.
\<close>

fun steps :: "framework \<Rightarrow> trainer \<Rightarrow> (tensor \<times> tensor) list \<Rightarrow> error + trainer" where
  "steps tf self [] = Inr self"
| "steps tf self ((image_x, image_y) # rest) =
     and_then (train_step tf self image_x image_y) (\<lambda>(step_losses, self'). steps tf self' rest)"

fun after_epochs :: "framework \<Rightarrow> trainer \<Rightarrow> (tensor \<times> tensor) list \<Rightarrow> nat \<Rightarrow> error + trainer" where
  "after_epochs tf self batches 0 = Inr self"
| "after_epochs tf self batches (Suc e) =
     and_then (after_epochs tf self batches e) (\<lambda>self'. steps tf self' batches)"

subsection \<open>Checkpoints\<close>

text \<open>
  \<^verbatim>\<open>Checkpoint.save(file_prefix)\<close> increments the save counter, writes the values of the
  tracked objects under the path \<^verbatim>\<open>file_prefix-N\<close> and returns that path. The disk maps a
  path to the snapshot written there.
\<close>

record snapshot =
  saved_variables :: "tensor list list"
  saved_optimizers :: "adam list"

type_synonym disk = "string \<rightharpoonup> snapshot"

fun digits :: "nat \<Rightarrow> string" where
  "digits n =
     (if n < 10 then [char_of (48 + n)]
      else digits (n div 10) @ [char_of (48 + n mod 10)])"

definition take_snapshot :: "trainer \<Rightarrow> snapshot" where
  "take_snapshot self =
     \<lparr>saved_variables =
        [trainable_variables (generator_g self), trainable_variables (generator_f self),
         trainable_variables (discriminator_x self), trainable_variables (discriminator_y self)],
      saved_optimizers =
        [generator_g_optimizer self, generator_f_optimizer self,
         discriminator_x_optimizer self, discriminator_y_optimizer self]\<rparr>"

definition checkpoint_save :: "trainer \<Rightarrow> disk \<Rightarrow> string \<Rightarrow> string \<times> trainer \<times> disk" where
  "checkpoint_save self files file_prefix =
     (let n = save_counter (checkpoint self) + 1;
          path = file_prefix @ ''-'' @ digits n
      in (path, self\<lparr>checkpoint := \<lparr>save_counter = n\<rparr>\<rparr>, files(path \<mapsto> take_snapshot self)))"

text \<open>Python's truth value of an argument that is \<^verbatim>\<open>None\<close> or a string.\<close>

fun truthy :: "string option \<Rightarrow> bool" where
  "truthy None = False"
| "truthy (Some s) = (s \<noteq> [])"

text \<open>
  \<^verbatim>\<open>CycleGanTraining.save\<close>. The second branch reads the attribute
  \<^verbatim>\<open>self.checkpoint_prefix\<close>; reading an attribute that was never assigned raises
  \<^verbatim>\<open>AttributeError\<close>. The result is the returned path (or \<^verbatim>\<open>None\<close>), the trainer and
  the disk.
\<close>

definition save :: "trainer \<Rightarrow> disk \<Rightarrow> string option \<Rightarrow> error + (string option \<times> trainer \<times> disk)" where
  "save self files prefix_arg =
     (if truthy prefix_arg then
        (case checkpoint_save self files (the prefix_arg) of
           (path, self', files') \<Rightarrow> Inr (Some path, self', files'))
      else
        (case checkpoint_prefix self of
           Unbound \<Rightarrow> Inl AttributeError
         | Bound own_prefix \<Rightarrow>
             if truthy own_prefix then
               (case checkpoint_save self files (the own_prefix) of
                  (path, self', files') \<Rightarrow> Inr (Some path, self', files'))
             else Inr (None, self, files)))"

section \<open>The PatchGAN discriminator builder (\<^verbatim>\<open>cyclegan/CycleGan.py\<close>)\<close>

text \<open>
  The builders compose Keras layers with the functional interface: a layer applied to
  symbolic tensors gives a symbolic tensor, and a model is the graph between its inputs and
  its output. A layer is described by its constructor arguments (for a convolution: the
  filters, the kernel size, the strides, the padding and whether it has a bias).
\<close>

datatype layer =
    Conv2D nat nat nat string bool
  | BatchNormalization
  | InstanceNormalization
  | LeakyReLU
  | ZeroPadding2D
  | Concatenate
  | Sequential "layer list"

datatype keras_tensor =
    Input "nat option list" string
  | Apply layer "keras_tensor list"

datatype keras_model = Model "keras_tensor list" keras_tensor

text \<open>\<^verbatim>\<open>str.lower\<close> on the letters of the ASCII alphabet.\<close>

definition lower_char :: "char \<Rightarrow> char" where
  "lower_char c =
     (let n = (of_char c :: nat) in if 65 \<le> n \<and> n \<le> 90 then char_of (n + 32) else c)"

definition lower :: "string \<Rightarrow> string" where
  "lower s = map lower_char s"

definition downsample :: "nat \<Rightarrow> nat \<Rightarrow> string \<Rightarrow> bool \<Rightarrow> layer" where
  "downsample filters size' norm_type apply_norm =
     Sequential
       ([Conv2D filters size' 2 ''same'' False]
        @ (if apply_norm then
             (if lower norm_type = ''batchnorm'' then [BatchNormalization]
              else if lower norm_type = ''instancenorm'' then [InstanceNormalization]
              else [])
           else [])
        @ [LeakyReLU])"

text \<open>
  \<^verbatim>\<open>discriminator(norm_type, target)\<close>. The local \<^verbatim>\<open>norm1\<close> is assigned in the two
  branches of the \<^verbatim>\<open>if\<close>/\<^verbatim>\<open>elif\<close> only; the next statement reads it.
\<close>

definition discriminator :: "string \<Rightarrow> bool \<Rightarrow> error + keras_model" where
  "discriminator norm_type target =
     (let inp = Input [None, None, Some 3] ''input_image'';
          tar = Input [None, None, Some 3] ''target_image'';
          x = (if target then Apply Concatenate [inp, tar] else inp);
          down1 = Apply (downsample 64 4 norm_type False) [x];
          down2 = Apply (downsample 128 4 norm_type True) [down1];
          down3 = Apply (downsample 256 4 norm_type True) [down2];
          zero_pad1 = Apply ZeroPadding2D [down3];
          conv = Apply (Conv2D 512 4 1 ''valid'' False) [zero_pad1];
          norm1 =
            (if lower norm_type = ''batchnorm'' then Bound (Apply BatchNormalization [conv])
             else if lower norm_type = ''instancenorm'' then Bound (Apply InstanceNormalization [conv])
             else Unbound)
      in case norm1 of
           Unbound \<Rightarrow> Inl UnboundLocalError
         | Bound norm1' \<Rightarrow>
             let leaky_relu = Apply LeakyReLU [norm1'];
                 zero_pad2 = Apply ZeroPadding2D [leaky_relu];
                 last' = Apply (Conv2D 1 4 1 ''valid'' True) [zero_pad2]
             in if target then Inr (Model [inp, tar] last') else Inr (Model [inp] last'))"

section \<open>The Vision-Transformer discriminator (\<^verbatim>\<open>transgan/build_discriminator.py\<close>)\<close>

















section \<open>Example objects\<close>

text \<open>
  A one-weight network that multiplies its input by its weight, a trainer over four such
  networks, and small tensors; the concrete checks below run on them.
\<close>

definition scale_call :: "bool \<Rightarrow> tensor list \<Rightarrow> tensor \<Rightarrow> error + tensor" where
  "scale_call training vs x =
     (case vs of
        [w] \<Rightarrow> (case elems w of
                  [k] \<Rightarrow> Inr \<lparr>shape = shape x, elems = map (\<lambda>v. k * v) (elems x)\<rparr>
                | _ \<Rightarrow> Inl InvalidArgumentError)
      | _ \<Rightarrow> Inl InvalidArgumentError)"

definition scale_model :: "real \<Rightarrow> model" where
  "scale_model k = \<lparr>call_fn = scale_call, trainable_variables = [\<lparr>shape = [], elems = [k]\<rparr>]\<rparr>"

definition toy_trainer :: trainer where
  "toy_trainer =
     init (scale_model 1) (scale_model 1) (scale_model 1) (scale_model 1)
       (2 / 10 ^ 4) 0.5 0.999 (Some ''ckpt'')"

text \<open>
  A stand-in for the framework in the concrete checks: every gradient is the all-ones
  tensor, and the optimizer takes a plain descent step of its learning rate.
\<close>

definition toy_apply_gradients :: "adam \<Rightarrow> (tensor option \<times> tensor) list \<Rightarrow> error + (adam \<times> tensor list)" where
  "toy_apply_gradients opt gvs =
     (if gvs = [] then Inl ValueError
      else Inr (opt\<lparr>iterations := iterations opt + 1\<rparr>,
                map (\<lambda>(g, v). case g of
                                 None \<Rightarrow> v
                               | Some g' \<Rightarrow> \<lparr>shape = shape v,
                                             elems = map2 (\<lambda>a b. a - learning_rate opt * b) (elems v) (elems g')\<rparr>)
                    gvs))"

definition toy_framework :: framework where
  "toy_framework =
     \<lparr>tape_gradient = (\<lambda>objective vs. map (\<lambda>v. Some (tf_ones_like v)) vs),
      apply_gradients = toy_apply_gradients\<rparr>"







text \<open>
  A stand-in for the display: it draws images of one, three or four channels and raises on
  any other image data; its other calls return.
\<close>

definition toy_imshow :: "tensor \<Rightarrow> error + unit" where
  "toy_imshow picture =
     (case shape picture of
        [m, n] \<Rightarrow> Inr ()
      | [m, n, c] \<Rightarrow> if c = 1 \<or> c = 3 \<or> c = 4 then Inr () else Inl TypeError
      | _ \<Rightarrow> Inl TypeError)"

definition toy_display :: display where
  "toy_display =
     \<lparr>plt_figure = (\<lambda>figsize. Inr ()),
      plt_subplot = (\<lambda>nrows ncols index. Inr ()),
      plt_title = (\<lambda>label. Inr ()),
      plt_imshow = toy_imshow,
      plt_axis = (\<lambda>option. Inr ()),
      plt_show = Inr (),
      clear_output = (\<lambda>wait. Inr ())\<rparr>"

definition empty_batch :: tensor where
  "empty_batch = \<lparr>shape = [0, 4, 4, 3], elems = []\<rparr>"

definition pixel :: "real \<Rightarrow> tensor" where
  "pixel v = \<lparr>shape = [1, 1, 1, 1], elems = [v]\<rparr>"

text \<open>The tape of the step of the example trainer on the batches \<open>pixel 0\<close> and \<open>pixel 1\<close>,
  and the trainer after that step under the stand-in framework.\<close>

definition toy_tape :: tape where
  "toy_tape =
     \<lparr>fake_y = pixel 0, cycled_x = pixel 0, fake_x = pixel 1, cycled_y = pixel 1,
      same_x = pixel 0, same_y = pixel 1,
      disc_real_x = pixel 0, disc_real_y = pixel 1,
      disc_fake_x = pixel 1, disc_fake_y = pixel 0,
      gen_g_loss = Num (ln 2), gen_f_loss = Num (ln (1 + exp (- 1))),
      total_cycle_loss = Num 0,
      total_gen_g_loss = Num (ln 2), total_gen_f_loss = Num (ln (1 + exp (- 1))),
      disc_x_loss = Num ((ln 2 + (1 + ln (1 + exp (- 1)))) / 2),
      disc_y_loss = Num ((ln (1 + exp (- 1)) + ln 2) / 2)\<rparr>"

definition toy_trainer_after_step :: trainer where
  "toy_trainer_after_step =
     toy_trainer
       \<lparr>generator_g := scale_model (4999 / 5000),
        generator_f := scale_model (4999 / 5000),
        discriminator_x := scale_model (4999 / 5000),
        discriminator_y := scale_model (4999 / 5000),
        generator_g_optimizer := (Adam (2 / 10 ^ 4) 0.5)\<lparr>iterations := 1\<rparr>,
        generator_f_optimizer := (Adam (2 / 10 ^ 4) 0.5)\<lparr>iterations := 1\<rparr>,
        discriminator_x_optimizer := (Adam (2 / 10 ^ 4) 0.5)\<lparr>iterations := 1\<rparr>,
        discriminator_y_optimizer := (Adam (2 / 10 ^ 4) 0.5)\<lparr>iterations := 1\<rparr>\<rparr>"








section \<open>Properties\<close>

subsection \<open>Fallible computations and scalars\<close>

lemma and_then_Inl [simp]: "and_then (Inl e) f = Inl e"
  by (simp add: and_then_def)

lemma and_then_Inr [simp]: "and_then (Inr x) f = f x"
  by (simp add: and_then_def)

lemma and_then_eq_Inr: "and_then m f = Inr y \<longleftrightarrow> (\<exists>x. m = Inr x \<and> f x = Inr y)"
  by (cases m) simp_all

lemma fadd_commute: "fadd a b = fadd b a"
  by (cases a; cases b) simp_all

lemma fmul_commute: "fmul a b = fmul b a"
  by (cases a; cases b) simp_all


subsection \<open>Broadcasting a tensor against itself\<close>

lemma broadcast_dims_same: "broadcast_dims s s = Some s"
  by (induction s) simp_all

lemma broadcast_shape_same: "broadcast_shape s s = Some s"
  by (simp add: broadcast_shape_def broadcast_dims_same)

lemma map2_minus_self: "map2 (-) xs xs = replicate (length xs) (0::real)"
  by (induction xs) simp_all

lemma tf_subtract_self:
  "tf_subtract a a = Inr \<lparr>shape = shape a, elems = replicate (prod_list (shape a)) 0\<rparr>"
proof -
  have "length (broadcast_to a (shape a)) = prod_list (shape a)"
    by (simp add: broadcast_to_def)
  then have "map2 (-) (broadcast_to a (shape a)) (broadcast_to a (shape a))
          = replicate (prod_list (shape a)) 0"
    using map2_minus_self [of "broadcast_to a (shape a)"] by simp
  then show ?thesis
    by (simp add: tf_subtract_def broadcast_shape_same)
qed

lemma tf_reduce_mean_zeros:
  "0 < n \<Longrightarrow> tf_reduce_mean (tf_abs \<lparr>shape = s, elems = replicate n 0\<rparr>) = Num 0"
  by (simp add: tf_reduce_mean_def tf_abs_def sum_list_replicate)

lemma tf_reduce_mean_empty:
  "tf_reduce_mean (tf_abs \<lparr>shape = s, elems = []\<rparr>) = NaN"
  by (simp add: tf_reduce_mean_def tf_abs_def)

subsection \<open>Signs of the losses\<close>














subsection \<open>Losses of tensors that have entries\<close>














subsection \<open>What a completed step has computed\<close>

lemma forward_pass_Inr:
  assumes "forward_pass self real_x real_y = Inr t"
  shows "\<exists>cycle_loss_x cycle_loss_y identity_loss_y identity_loss_x.
     apply_model (generator_g self) True real_x = Inr (fake_y t)
   \<and> apply_model (generator_f self) True (fake_y t) = Inr (cycled_x t)
   \<and> apply_model (generator_f self) True real_y = Inr (fake_x t)
   \<and> apply_model (generator_g self) True (fake_x t) = Inr (cycled_y t)
   \<and> apply_model (generator_f self) True real_x = Inr (same_x t)
   \<and> apply_model (generator_g self) True real_y = Inr (same_y t)
   \<and> apply_model (discriminator_x self) True real_x = Inr (disc_real_x t)
   \<and> apply_model (discriminator_y self) True real_y = Inr (disc_real_y t)
   \<and> apply_model (discriminator_x self) True (fake_x t) = Inr (disc_fake_x t)
   \<and> apply_model (discriminator_y self) True (fake_y t) = Inr (disc_fake_y t)
   \<and> generator_loss self (disc_fake_y t) = Inr (gen_g_loss t)
   \<and> generator_loss self (disc_fake_x t) = Inr (gen_f_loss t)
   \<and> calc_cycle_loss self real_x (cycled_x t) = Inr cycle_loss_x
   \<and> calc_cycle_loss self real_y (cycled_y t) = Inr cycle_loss_y
   \<and> identity_loss self real_y (same_y t) = Inr identity_loss_y
   \<and> identity_loss self real_x (same_x t) = Inr identity_loss_x
   \<and> total_cycle_loss t = fadd cycle_loss_x cycle_loss_y
   \<and> total_gen_g_loss t = fadd (fadd (gen_g_loss t) (total_cycle_loss t)) identity_loss_y
   \<and> total_gen_f_loss t = fadd (fadd (gen_f_loss t) (total_cycle_loss t)) identity_loss_x
   \<and> discriminator_loss self (disc_real_x t) (disc_fake_x t) = Inr (disc_x_loss t)
   \<and> discriminator_loss self (disc_real_y t) (disc_fake_y t) = Inr (disc_y_loss t)"
  using assms
  unfolding forward_pass_def and_then_eq_Inr Let_def
  by fastforce

lemma train_step_Inr:
  assumes "train_step tf self real_x real_y = Inr (result, self')"
  shows "\<exists>t opt_g vars_g opt_f vars_f opt_dx vars_dx opt_dy vars_dy.
     forward_pass self real_x real_y = Inr t
   \<and> result = (disc_x_loss t, total_gen_g_loss t)
   \<and> apply_gradients tf (generator_g_optimizer self)
        (zip (tape_gradient tf (generator_g_objective self real_x real_y)
                (trainable_variables (generator_g self)))
             (trainable_variables (generator_g self))) = Inr (opt_g, vars_g)
   \<and> apply_gradients tf (generator_f_optimizer self)
        (zip (tape_gradient tf (generator_f_objective self real_x real_y)
                (trainable_variables (generator_f self)))
             (trainable_variables (generator_f self))) = Inr (opt_f, vars_f)
   \<and> apply_gradients tf (discriminator_x_optimizer self)
        (zip (tape_gradient tf (discriminator_x_objective self real_x real_y)
                (trainable_variables (discriminator_x self)))
             (trainable_variables (discriminator_x self))) = Inr (opt_dx, vars_dx)
   \<and> apply_gradients tf (discriminator_y_optimizer self)
        (zip (tape_gradient tf (discriminator_y_objective self real_x real_y)
                (trainable_variables (discriminator_y self)))
             (trainable_variables (discriminator_y self))) = Inr (opt_dy, vars_dy)
   \<and> self' = self\<lparr>generator_g := set_variables (generator_g self) vars_g,
               generator_f := set_variables (generator_f self) vars_f,
               discriminator_x := set_variables (discriminator_x self) vars_dx,
               discriminator_y := set_variables (discriminator_y self) vars_dy,
               generator_g_optimizer := opt_g,
               generator_f_optimizer := opt_f,
               discriminator_x_optimizer := opt_dx,
               discriminator_y_optimizer := opt_dy\<rparr>"
  using assms
  unfolding train_step_def and_then_eq_Inr Let_def
  by (auto simp: and_then_eq_Inr split: prod.splits)


lemma train_step_losses:
  assumes "train_step tf self real_x real_y = Inr (result, self')"
  shows "\<exists>t cycle_loss_x cycle_loss_y identity_loss_y identity_loss_x.
     forward_pass self real_x real_y = Inr t
   \<and> apply_model (generator_g self) True real_x = Inr (fake_y t)
   \<and> apply_model (generator_f self) True (fake_y t) = Inr (cycled_x t)
   \<and> apply_model (generator_f self) True real_y = Inr (fake_x t)
   \<and> apply_model (generator_g self) True (fake_x t) = Inr (cycled_y t)
   \<and> apply_model (generator_f self) True real_x = Inr (same_x t)
   \<and> apply_model (generator_g self) True real_y = Inr (same_y t)
   \<and> apply_model (discriminator_x self) True real_x = Inr (disc_real_x t)
   \<and> apply_model (discriminator_x self) True (fake_x t) = Inr (disc_fake_x t)
   \<and> apply_model (discriminator_y self) True (fake_y t) = Inr (disc_fake_y t)
   \<and> generator_loss self (disc_fake_y t) = Inr (gen_g_loss t)
   \<and> generator_loss self (disc_fake_x t) = Inr (gen_f_loss t)
   \<and> calc_cycle_loss self real_x (cycled_x t) = Inr cycle_loss_x
   \<and> calc_cycle_loss self real_y (cycled_y t) = Inr cycle_loss_y
   \<and> identity_loss self real_y (same_y t) = Inr identity_loss_y
   \<and> identity_loss self real_x (same_x t) = Inr identity_loss_x
   \<and> total_gen_g_loss t
       = fadd (fadd (gen_g_loss t) (fadd cycle_loss_x cycle_loss_y)) identity_loss_y
   \<and> total_gen_f_loss t
       = fadd (fadd (gen_f_loss t) (fadd cycle_loss_x cycle_loss_y)) identity_loss_x
   \<and> discriminator_loss self (disc_real_x t) (disc_fake_x t) = Inr (disc_x_loss t)
   \<and> result = (disc_x_loss t, total_gen_g_loss t)
   \<and> LAMBDA self' = LAMBDA self
   \<and> LAMBDA (init gg gf dx dy lr b1 b2 prefix) = 10"
proof -
  from train_step_Inr [OF assms] obtain t where
    t: "forward_pass self real_x real_y = Inr t"
    and r: "result = (disc_x_loss t, total_gen_g_loss t)"
    and l: "LAMBDA self' = LAMBDA self"
    by auto
  from forward_pass_Inr [OF t] obtain cx cy iy ix where
    "apply_model (generator_g self) True real_x = Inr (fake_y t)"
    "apply_model (generator_f self) True (fake_y t) = Inr (cycled_x t)"
    "apply_model (generator_f self) True real_y = Inr (fake_x t)"
    "apply_model (generator_g self) True (fake_x t) = Inr (cycled_y t)"
    "apply_model (generator_f self) True real_x = Inr (same_x t)"
    "apply_model (generator_g self) True real_y = Inr (same_y t)"
    "apply_model (discriminator_x self) True real_x = Inr (disc_real_x t)"
    "apply_model (discriminator_x self) True (fake_x t) = Inr (disc_fake_x t)"
    "apply_model (discriminator_y self) True (fake_y t) = Inr (disc_fake_y t)"
    "generator_loss self (disc_fake_y t) = Inr (gen_g_loss t)"
    "generator_loss self (disc_fake_x t) = Inr (gen_f_loss t)"
    "calc_cycle_loss self real_x (cycled_x t) = Inr cx"
    "calc_cycle_loss self real_y (cycled_y t) = Inr cy"
    "identity_loss self real_y (same_y t) = Inr iy"
    "identity_loss self real_x (same_x t) = Inr ix"
    "total_cycle_loss t = fadd cx cy"
    "total_gen_g_loss t = fadd (fadd (gen_g_loss t) (total_cycle_loss t)) iy"
    "total_gen_f_loss t = fadd (fadd (gen_f_loss t) (total_cycle_loss t)) ix"
    "discriminator_loss self (disc_real_x t) (disc_fake_x t) = Inr (disc_x_loss t)"
    by blast
  with t r l show ?thesis
    by (simp add: init_def)
qed

lemma train_step_returns:
  assumes "forward_pass self real_x real_y = Inr t"
    and "apply_gradients tf (generator_g_optimizer self)
        (zip (tape_gradient tf (generator_g_objective self real_x real_y)
                (trainable_variables (generator_g self)))
             (trainable_variables (generator_g self))) = Inr (opt_g, vars_g)"
    and "apply_gradients tf (generator_f_optimizer self)
        (zip (tape_gradient tf (generator_f_objective self real_x real_y)
                (trainable_variables (generator_f self)))
             (trainable_variables (generator_f self))) = Inr (opt_f, vars_f)"
    and "apply_gradients tf (discriminator_x_optimizer self)
        (zip (tape_gradient tf (discriminator_x_objective self real_x real_y)
                (trainable_variables (discriminator_x self)))
             (trainable_variables (discriminator_x self))) = Inr (opt_dx, vars_dx)"
    and "apply_gradients tf (discriminator_y_optimizer self)
        (zip (tape_gradient tf (discriminator_y_objective self real_x real_y)
                (trainable_variables (discriminator_y self)))
             (trainable_variables (discriminator_y self))) = Inr (opt_dy, vars_dy)"
  shows "\<exists>self'. train_step tf self real_x real_y
      = Inr ((disc_x_loss t, total_gen_g_loss t), self')"
  using assms by (simp add: train_step_def Let_def)

lemma train_step_keeps_configuration:
  assumes "train_step tf self real_x real_y = Inr (result, self')"
  shows "LAMBDA self' = LAMBDA self \<and> loss_obj self' = loss_obj self
    \<and> checkpoint self' = checkpoint self \<and> checkpoint_prefix self' = checkpoint_prefix self"
  using train_step_Inr [OF assms] by auto

subsection \<open>The loop of \<open>train\<close>\<close>

lemma epochs_range: "map (\<lambda>e. e + 1) [0..n - 1] = [1..(n::int)]"
  by (rule nth_equalityI) simp_all

lemma run_batches_append:
  "run_batches tf self l (xs @ ys) =
     and_then (run_batches tf self l xs) (\<lambda>(l', self'). run_batches tf self' l' ys)"
  by (induction xs arbitrary: self l) (auto simp: and_then_def split: sum.splits)

lemma steps_run_batches: "steps tf self zs = map_sum id snd (run_batches tf self l zs)"
  by (induction zs arbitrary: self l) (auto simp: and_then_def split: sum.splits)

lemma run_batches_last:
  assumes "zs \<noteq> []" and "run_batches tf self l zs = Inr (l', self')"
  shows "\<exists>s1 r. steps tf self (butlast zs) = Inr s1
    \<and> train_step tf s1 (fst (last zs)) (snd (last zs)) = Inr (r, self')
    \<and> l' = Bound r \<and> steps tf self zs = Inr self'"
proof -
  from assms(1) obtain ys x y where zs: "zs = ys @ [(x, y)]"
    by (metis append_butlast_last_id surj_pair)
  from assms(2) obtain l1 s1 where
    a: "run_batches tf self l ys = Inr (l1, s1)"
    and b: "run_batches tf s1 l1 [(x, y)] = Inr (l', self')"
    unfolding zs run_batches_append by (auto simp: and_then_eq_Inr)
  from b obtain r where r: "train_step tf s1 x y = Inr (r, self')" and l': "l' = Bound r"
    by (auto simp: and_then_eq_Inr)
  have "steps tf self ys = Inr s1"
    using a steps_run_batches [of tf self ys l] by simp
  moreover have "steps tf self zs = Inr self'"
    using assms(2) steps_run_batches [of tf self zs l] by simp
  ultimately show ?thesis
    using r l' by (simp add: zs)
qed

lemma after_epochs_shift:
  "after_epochs tf self zs (Suc k) = and_then (steps tf self zs) (\<lambda>s. after_epochs tf s zs k)"
proof (induction k)
  case 0
  show ?case by (cases "steps tf self zs") simp_all
next
  case (Suc k)
  have "after_epochs tf self zs (Suc (Suc k))
      = and_then (after_epochs tf self zs (Suc k)) (\<lambda>s. steps tf s zs)"
    by simp
  also have "\<dots> = and_then (and_then (steps tf self zs) (\<lambda>s. after_epochs tf s zs k)) (\<lambda>s. steps tf s zs)"
    by (simp only: Suc.IH)
  also have "\<dots> = and_then (steps tf self zs) (\<lambda>s. after_epochs tf s zs (Suc k))"
    by (cases "steps tf self zs") simp_all
  finally show ?case .
qed

lemma zip_empty_next_iter:
  assumes "zip train_img train_tar = []"
    and "next_iter train_img = Inr a"
    and "next_iter train_tar = Inr b"
  shows False
  using assms by (cases train_img; cases train_tar) (simp_all add: next_iter_def)

lemma train_epochs_Cons_Inr:
  assumes "train_epochs tf ui train_img train_tar (epoch # rest) st = Inr st'"
  shows "\<exists>l' self' sample_img sample_tar disc_loss gen_loss.
      run_batches tf (trainer_state st) (last_losses st) (zip train_img train_tar) = Inr (l', self')
    \<and> clear_output ui True = Inr ()
    \<and> next_iter train_img = Inr sample_img
    \<and> next_iter train_tar = Inr sample_tar
    \<and> generate_images ui self' (generator_g self') sample_img = Inr ()
    \<and> l' = Bound (disc_loss, gen_loss)
    \<and> train_epochs tf ui train_img train_tar rest
           \<lparr>trainer_state = self', last_losses = l',
            gen_loss_list = gen_loss_list st @ [gen_loss],
            disc_loss_list = disc_loss_list st @ [disc_loss],
            epoch_list = epoch_list st @ [epoch + 1]\<rparr> = Inr st'"
proof -
  from assms obtain l' self' sample_img sample_tar where
    run: "run_batches tf (trainer_state st) (last_losses st) (zip train_img train_tar) = Inr (l', self')"
    and clr: "clear_output ui True = Inr ()"
    and img: "next_iter train_img = Inr sample_img"
    and tar: "next_iter train_tar = Inr sample_tar"
    and gen: "generate_images ui self' (generator_g self') sample_img = Inr ()"
    and rest: "(case l' of
       Unbound \<Rightarrow> Inl UnboundLocalError
     | Bound (disc_loss, gen_loss) \<Rightarrow>
         train_epochs tf ui train_img train_tar rest
           \<lparr>trainer_state = self', last_losses = l',
            gen_loss_list = gen_loss_list st @ [gen_loss],
            disc_loss_list = disc_loss_list st @ [disc_loss],
            epoch_list = epoch_list st @ [epoch + 1]\<rparr>) = Inr st'"
    by (auto simp: and_then_eq_Inr)
  from rest obtain disc_loss gen_loss where "l' = Bound (disc_loss, gen_loss)"
    by (cases l') auto
  with run clr img tar gen rest show ?thesis
    by auto
qed

lemma train_epochs_trace:
  assumes "train_epochs tf ui train_img train_tar es st = Inr st'"
  shows "\<exists>gs ds.
      gen_loss_list st' = gen_loss_list st @ gs
    \<and> disc_loss_list st' = disc_loss_list st @ ds
    \<and> length gs = length es \<and> length ds = length es
    \<and> epoch_list st' = epoch_list st @ map (\<lambda>e. e + 1) es
    \<and> (\<forall>k < length es. \<exists>s0 s1 s2.
          zip train_img train_tar \<noteq> []
        \<and> after_epochs tf (trainer_state st) (zip train_img train_tar) k = Inr s0
        \<and> steps tf s0 (butlast (zip train_img train_tar)) = Inr s1
        \<and> train_step tf s1 (fst (last (zip train_img train_tar)))
             (snd (last (zip train_img train_tar))) = Inr ((ds ! k, gs ! k), s2))"
  using assms
proof (induction es arbitrary: st)
  case Nil
  then show ?case by simp
next
  case (Cons epoch rest)
  let ?zs = "zip train_img train_tar"
  from train_epochs_Cons_Inr [OF Cons.prems] obtain l' self' sample_img sample_tar disc_loss gen_loss where
    run: "run_batches tf (trainer_state st) (last_losses st) ?zs = Inr (l', self')"
    and img: "next_iter train_img = Inr sample_img"
    and tar: "next_iter train_tar = Inr sample_tar"
    and l': "l' = Bound (disc_loss, gen_loss)"
    and rec: "train_epochs tf ui train_img train_tar rest
           \<lparr>trainer_state = self', last_losses = l',
            gen_loss_list = gen_loss_list st @ [gen_loss],
            disc_loss_list = disc_loss_list st @ [disc_loss],
            epoch_list = epoch_list st @ [epoch + 1]\<rparr> = Inr st'"
    by blast
  have ne: "?zs \<noteq> []"
    using zip_empty_next_iter [OF _ img tar] by blast
  from run_batches_last [OF ne run] l' obtain s1 where
    s1: "steps tf (trainer_state st) (butlast ?zs) = Inr s1"
    and step: "train_step tf s1 (fst (last ?zs)) (snd (last ?zs)) = Inr ((disc_loss, gen_loss), self')"
    and all: "steps tf (trainer_state st) ?zs = Inr self'"
    by auto
  from Cons.IH [OF rec] obtain gs ds where
    g: "gen_loss_list st' = (gen_loss_list st @ [gen_loss]) @ gs"
    and d: "disc_loss_list st' = (disc_loss_list st @ [disc_loss]) @ ds"
    and lg: "length gs = length rest" and ld: "length ds = length rest"
    and e: "epoch_list st' = (epoch_list st @ [epoch + 1]) @ map (\<lambda>e. e + 1) rest"
    and tr: "\<forall>k < length rest. \<exists>s0 s1 s2.
          ?zs \<noteq> []
        \<and> after_epochs tf self' ?zs k = Inr s0
        \<and> steps tf s0 (butlast ?zs) = Inr s1
        \<and> train_step tf s1 (fst (last ?zs)) (snd (last ?zs)) = Inr ((ds ! k, gs ! k), s2)"
    by auto
  have "\<exists>s0 s1 s2.
          ?zs \<noteq> []
        \<and> after_epochs tf (trainer_state st) ?zs k = Inr s0
        \<and> steps tf s0 (butlast ?zs) = Inr s1
        \<and> train_step tf s1 (fst (last ?zs)) (snd (last ?zs))
            = Inr (((disc_loss # ds) ! k, (gen_loss # gs) ! k), s2)"
    if k: "k < length (epoch # rest)" for k
  proof (cases k)
    case 0
    with ne s1 step show ?thesis by auto
  next
    case (Suc j)
    with k have "j < length rest" by simp
    with tr obtain s0 s1' s2 where
      "after_epochs tf self' ?zs j = Inr s0"
      "steps tf s0 (butlast ?zs) = Inr s1'"
      "train_step tf s1' (fst (last ?zs)) (snd (last ?zs)) = Inr ((ds ! j, gs ! j), s2)"
      by blast
    moreover have "after_epochs tf (trainer_state st) ?zs (Suc j) = after_epochs tf self' ?zs j"
      by (simp only: after_epochs_shift all and_then_Inr)
    ultimately show ?thesis
      using ne Suc by auto
  qed
  with g d lg ld e show ?case
    by (intro exI [of _ "gen_loss # gs"] exI [of _ "disc_loss # ds"]) simp
qed

lemma train_result_trace:
  assumes "train tf ui self train_img train_tar epochs = Inr ((epochs_out, gen_losses, disc_losses), self')"
  shows "epochs_out = [1..epochs]
    \<and> length gen_losses = nat epochs \<and> length disc_losses = nat epochs
    \<and> (\<forall>e < nat epochs. \<exists>s0 s1 s2.
          zip train_img train_tar \<noteq> []
        \<and> after_epochs tf self (zip train_img train_tar) e = Inr s0
        \<and> steps tf s0 (butlast (zip train_img train_tar)) = Inr s1
        \<and> train_step tf s1 (fst (last (zip train_img train_tar)))
             (snd (last (zip train_img train_tar))) = Inr ((disc_losses ! e, gen_losses ! e), s2))"
proof -
  from assms obtain st' where
    run: "train_epochs tf ui train_img train_tar [0..epochs - 1]
          \<lparr>trainer_state = self, last_losses = Unbound,
           gen_loss_list = [], disc_loss_list = [], epoch_list = []\<rparr> = Inr st'"
    and out: "epochs_out = epoch_list st'" "gen_losses = gen_loss_list st'"
      "disc_losses = disc_loss_list st'"
    by (auto simp: train_def and_then_eq_Inr)
  have len: "length [0..epochs - 1] = nat epochs"
    by simp
  from train_epochs_trace [OF run] show ?thesis
    unfolding out len by (auto simp: epochs_range)
qed

lemma run_batches_of_steps:
  assumes "steps tf self zs = Inr s"
  shows "\<exists>l'. run_batches tf self l zs = Inr (l', s)"
  using assms steps_run_batches [of tf self zs l]
  by (cases "run_batches tf self l zs") auto

lemma train_epochs_returns:
  assumes "train_img \<noteq> []" and "train_tar \<noteq> []"
    and "clear_output ui True = Inr ()"
    and "\<forall>k < length es. \<exists>s.
           after_epochs tf (trainer_state st) (zip train_img train_tar) (Suc k) = Inr s
         \<and> generate_images ui s (generator_g s) (hd train_img) = Inr ()"
  shows "\<exists>st'. train_epochs tf ui train_img train_tar es st = Inr st'"
  using assms(4)
proof (induction es arbitrary: st)
  case Nil
  show ?case by simp
next
  case (Cons epoch rest)
  let ?zs = "zip train_img train_tar"
  have ne: "?zs \<noteq> []"
    using assms(1,2) by (cases train_img; cases train_tar) simp_all
  from Cons.prems obtain s where
    s: "after_epochs tf (trainer_state st) ?zs (Suc 0) = Inr s"
    and g: "generate_images ui s (generator_g s) (hd train_img) = Inr ()"
    by fastforce
  from s have all: "steps tf (trainer_state st) ?zs = Inr s"
    by simp
  from run_batches_of_steps [OF all] obtain l' where
    run: "run_batches tf (trainer_state st) (last_losses st) ?zs = Inr (l', s)"
    by blast
  from run_batches_last [OF ne run] obtain r where l': "l' = Bound r"
    by blast
  obtain disc_loss gen_loss where r: "r = (disc_loss, gen_loss)"
    by (cases r)
  let ?st = "\<lparr>trainer_state = s, last_losses = l',
            gen_loss_list = gen_loss_list st @ [gen_loss],
            disc_loss_list = disc_loss_list st @ [disc_loss],
            epoch_list = epoch_list st @ [epoch + 1]\<rparr>"
  have "\<forall>k < length rest. \<exists>s'.
           after_epochs tf (trainer_state ?st) ?zs (Suc k) = Inr s'
         \<and> generate_images ui s' (generator_g s') (hd train_img) = Inr ()"
  proof (intro allI impI)
    fix k assume "k < length rest"
    then have "Suc k < length (epoch # rest)" by simp
    with Cons.prems obtain s' where
      a: "after_epochs tf (trainer_state st) ?zs (Suc (Suc k)) = Inr s'"
      and b: "generate_images ui s' (generator_g s') (hd train_img) = Inr ()"
      by blast
    have "after_epochs tf (trainer_state st) ?zs (Suc (Suc k)) = after_epochs tf s ?zs (Suc k)"
      by (simp only: after_epochs_shift [of tf "trainer_state st"] all and_then_Inr)
    with a b show "\<exists>s'. after_epochs tf (trainer_state ?st) ?zs (Suc k) = Inr s'
         \<and> generate_images ui s' (generator_g s') (hd train_img) = Inr ()"
      by (simp del: after_epochs.simps)
  qed
  from Cons.IH [OF this] obtain st' where
    "train_epochs tf ui train_img train_tar rest ?st = Inr st'"
    by blast
  moreover have "next_iter train_img = Inr (hd train_img)"
    using assms(1) by (cases train_img) (simp_all add: next_iter_def)
  moreover have "\<exists>t. next_iter train_tar = Inr t"
    using assms(2) by (cases train_tar) (simp_all add: next_iter_def)
  ultimately show ?case
    using run g l' r assms(3) by auto
qed

lemma train_returns_when_steps_succeed:
  assumes "train_img \<noteq> []" and "train_tar \<noteq> []"
    and "clear_output ui True = Inr ()"
    and "\<forall>e < nat epochs. \<exists>s.
           after_epochs tf self (zip train_img train_tar) (Suc e) = Inr s
         \<and> generate_images ui s (generator_g s) (hd train_img) = Inr ()"
  shows "\<exists>result self'. train tf ui self train_img train_tar epochs = Inr (result, self')"
proof -
  have "\<exists>st'. train_epochs tf ui train_img train_tar [0..epochs - 1]
          \<lparr>trainer_state = self, last_losses = Unbound,
           gen_loss_list = [], disc_loss_list = [], epoch_list = []\<rparr> = Inr st'"
    using assms(4) by (intro train_epochs_returns [OF assms(1,2,3)]) simp
  then show ?thesis
    by (auto simp: train_def)
qed

lemma train_on_empty_dataset_raises:
  assumes "clear_output ui True = Inr ()"
  shows "train tf ui self [] train_tar 1 = Inl StopIteration"
proof -
  have "[0..(1::int) - 1] = [0]"
    by (simp add: upto.simps)
  then show ?thesis
    using assms by (simp add: train_def next_iter_def)
qed

subsection \<open>Lists of equally long pieces\<close>








subsection \<open>The example objects\<close>

lemma toy_forward_pass: "forward_pass toy_trainer (pixel 0) (pixel 1) = Inr toy_tape"
  by (simp add: forward_pass_def toy_trainer_def toy_tape_def init_def scale_model_def
      scale_call_def apply_model_def pixel_def generator_loss_def discriminator_loss_def
      calc_cycle_loss_def identity_loss_def BinaryCrossentropy_from_logits_def tf_ones_like_def
      tf_zeros_like_def rows_of_def sigmoid_cross_entropy_with_logits_def tf_subtract_def
      broadcast_shape_def broadcast_to_def source_index_def tf_abs_def tf_reduce_mean_def
      Let_def)



lemma toy_train_step:
  "train_step toy_framework toy_trainer (pixel 0) (pixel 1) =
     Inr ((Num ((ln 2 + (1 + ln (1 + exp (- 1)))) / 2), Num (ln 2)), toy_trainer_after_step)"
  unfolding train_step_def toy_forward_pass
  by (simp add: toy_framework_def toy_apply_gradients_def toy_trainer_def toy_tape_def
      toy_trainer_after_step_def init_def scale_model_def set_variables_def tf_ones_like_def
      Adam_def)

lemma toy_apply_gradients_results:
  "apply_gradients toy_framework (generator_g_optimizer toy_trainer)
        (zip (tape_gradient toy_framework (generator_g_objective toy_trainer (pixel 0) (pixel 1))
                (trainable_variables (generator_g toy_trainer)))
             (trainable_variables (generator_g toy_trainer)))
     = Inr (generator_g_optimizer toy_trainer_after_step,
            trainable_variables (generator_g toy_trainer_after_step))"
  "apply_gradients toy_framework (generator_f_optimizer toy_trainer)
        (zip (tape_gradient toy_framework (generator_f_objective toy_trainer (pixel 0) (pixel 1))
                (trainable_variables (generator_f toy_trainer)))
             (trainable_variables (generator_f toy_trainer)))
     = Inr (generator_f_optimizer toy_trainer_after_step,
            trainable_variables (generator_f toy_trainer_after_step))"
  "apply_gradients toy_framework (discriminator_x_optimizer toy_trainer)
        (zip (tape_gradient toy_framework (discriminator_x_objective toy_trainer (pixel 0) (pixel 1))
                (trainable_variables (discriminator_x toy_trainer)))
             (trainable_variables (discriminator_x toy_trainer)))
     = Inr (discriminator_x_optimizer toy_trainer_after_step,
            trainable_variables (discriminator_x toy_trainer_after_step))"
  "apply_gradients toy_framework (discriminator_y_optimizer toy_trainer)
        (zip (tape_gradient toy_framework (discriminator_y_objective toy_trainer (pixel 0) (pixel 1))
                (trainable_variables (discriminator_y toy_trainer)))
             (trainable_variables (discriminator_y toy_trainer)))
     = Inr (discriminator_y_optimizer toy_trainer_after_step,
            trainable_variables (discriminator_y toy_trainer_after_step))"
  by (simp_all add: toy_framework_def toy_apply_gradients_def toy_trainer_def
      toy_trainer_after_step_def init_def scale_model_def tf_ones_like_def Adam_def)








lemma toy_generate_images:
  "generate_images toy_display toy_trainer_after_step (generator_g toy_trainer_after_step) (pixel 0) = Inr ()"
  by (simp add: generate_images_def toy_display_def toy_imshow_def to_unit_range_def
      toy_trainer_after_step_def apply_model_def scale_model_def
      scale_call_def pixel_def first_image_def)

lemma toy_clear_output: "clear_output toy_display True = Inr ()"
  by (simp add: toy_display_def)

lemma toy_train:
  "train toy_framework toy_display toy_trainer [pixel 0] [pixel 1] 1 =
     Inr (([1], [Num (ln 2)], [Num ((ln 2 + (1 + ln (1 + exp (- 1)))) / 2)]), toy_trainer_after_step)"
proof -
  have "[0..(1::int) - 1] = [0]"
    by (simp add: upto.simps)
  then show ?thesis
    by (simp add: train_def toy_train_step toy_generate_images toy_clear_output next_iter_def)
qed


lemma lower_examples:
  "lower ''LayerNorm'' = ''layernorm''" "lower ''InstanceNorm'' = ''instancenorm''"
  by code_simp+

lemma save_with_explicit_prefix:
  assumes "p \<noteq> []"
  shows "save self files (Some p)
    = Inr (Some (p @ ''-'' @ digits (save_counter (checkpoint self) + 1)),
           self\<lparr>checkpoint := \<lparr>save_counter = save_counter (checkpoint self) + 1\<rparr>\<rparr>,
           files(p @ ''-'' @ digits (save_counter (checkpoint self) + 1) \<mapsto> take_snapshot self))"
  using assms by (simp add: save_def checkpoint_save_def Let_def)

section \<open>The claims\<close>

text \<open>
  C1. Whenever \<open>train_step\<close> returns on the batches \<open>real_x\<close> and \<open>real_y\<close>, the total
  generator-G loss is the adversarial generator loss on \<open>discriminator_y\<close>'s score of the
  fake plus the cycle losses of both domains plus the identity loss on domain Y, the total
  generator-F loss is the same with \<open>discriminator_x\<close>'s score and the identity loss on
  domain X, and the returned pair is (discriminator-x loss, total generator-G loss). The
  cycle weight \<open>LAMBDA\<close> is 10 from the constructor on, and a step does not change it.
  The step does return, with that pair, when the recorded block completes and the four
  optimizer steps succeed.
\<close>

theorem train_step_returns_losses:
  "(train_step tf self real_x real_y = Inr (result, self')
      \<longrightarrow> (\<exists>t cycle_loss_x cycle_loss_y identity_loss_y identity_loss_x.
            forward_pass self real_x real_y = Inr t
          \<and> apply_model (generator_g self) True real_x = Inr (fake_y t)
          \<and> apply_model (generator_f self) True (fake_y t) = Inr (cycled_x t)
          \<and> apply_model (generator_f self) True real_y = Inr (fake_x t)
          \<and> apply_model (generator_g self) True (fake_x t) = Inr (cycled_y t)
          \<and> apply_model (generator_f self) True real_x = Inr (same_x t)
          \<and> apply_model (generator_g self) True real_y = Inr (same_y t)
          \<and> apply_model (discriminator_x self) True real_x = Inr (disc_real_x t)
          \<and> apply_model (discriminator_x self) True (fake_x t) = Inr (disc_fake_x t)
          \<and> apply_model (discriminator_y self) True (fake_y t) = Inr (disc_fake_y t)
          \<and> generator_loss self (disc_fake_y t) = Inr (gen_g_loss t)
          \<and> generator_loss self (disc_fake_x t) = Inr (gen_f_loss t)
          \<and> calc_cycle_loss self real_x (cycled_x t) = Inr cycle_loss_x
          \<and> calc_cycle_loss self real_y (cycled_y t) = Inr cycle_loss_y
          \<and> identity_loss self real_y (same_y t) = Inr identity_loss_y
          \<and> identity_loss self real_x (same_x t) = Inr identity_loss_x
          \<and> total_gen_g_loss t
              = fadd (fadd (gen_g_loss t) (fadd cycle_loss_x cycle_loss_y)) identity_loss_y
          \<and> total_gen_f_loss t
              = fadd (fadd (gen_f_loss t) (fadd cycle_loss_x cycle_loss_y)) identity_loss_x
          \<and> discriminator_loss self (disc_real_x t) (disc_fake_x t) = Inr (disc_x_loss t)
          \<and> result = (disc_x_loss t, total_gen_g_loss t)
          \<and> LAMBDA self' = LAMBDA self
          \<and> LAMBDA (init gg gf dx dy lr b1 b2 prefix) = 10))
   \<and> (forward_pass self real_x real_y = Inr recorded
       \<and> apply_gradients tf (generator_g_optimizer self)
            (zip (tape_gradient tf (generator_g_objective self real_x real_y)
                    (trainable_variables (generator_g self)))
                 (trainable_variables (generator_g self))) = Inr (opt_g, vars_g)
       \<and> apply_gradients tf (generator_f_optimizer self)
            (zip (tape_gradient tf (generator_f_objective self real_x real_y)
                    (trainable_variables (generator_f self)))
                 (trainable_variables (generator_f self))) = Inr (opt_f, vars_f)
       \<and> apply_gradients tf (discriminator_x_optimizer self)
            (zip (tape_gradient tf (discriminator_x_objective self real_x real_y)
                    (trainable_variables (discriminator_x self)))
                 (trainable_variables (discriminator_x self))) = Inr (opt_dx, vars_dx)
       \<and> apply_gradients tf (discriminator_y_optimizer self)
            (zip (tape_gradient tf (discriminator_y_objective self real_x real_y)
                    (trainable_variables (discriminator_y self)))
                 (trainable_variables (discriminator_y self))) = Inr (opt_dy, vars_dy)
      \<longrightarrow> (\<exists>self''. train_step tf self real_x real_y
               = Inr ((disc_x_loss recorded, total_gen_g_loss recorded), self'')))"
  apply (intro conjI impI)
   apply (erule train_step_losses)
  apply (elim conjE)
  apply (rule train_step_returns; assumption)
  done

theorem train_step_returns_losses_witness:
  "train_step toy_framework toy_trainer (pixel 0) (pixel 1)
     = Inr ((Num ((ln 2 + (1 + ln (1 + exp (- 1)))) / 2), Num (ln 2)), toy_trainer_after_step)
   \<and> (\<exists>cycle_loss_x cycle_loss_y identity_loss_y.
        calc_cycle_loss toy_trainer (pixel 0) (cycled_x toy_tape) = Inr cycle_loss_x
      \<and> calc_cycle_loss toy_trainer (pixel 1) (cycled_y toy_tape) = Inr cycle_loss_y
      \<and> identity_loss toy_trainer (pixel 1) (same_y toy_tape) = Inr identity_loss_y
      \<and> generator_loss toy_trainer (disc_fake_y toy_tape) = Inr (gen_g_loss toy_tape)
      \<and> Num (ln 2) = fadd (fadd (gen_g_loss toy_tape) (fadd cycle_loss_x cycle_loss_y)) identity_loss_y)
   \<and> LAMBDA toy_trainer_after_step = 10
   \<and> forward_pass toy_trainer (pixel 0) (pixel 1) = Inr toy_tape
   \<and> apply_gradients toy_framework (generator_g_optimizer toy_trainer)
        (zip (tape_gradient toy_framework (generator_g_objective toy_trainer (pixel 0) (pixel 1))
                (trainable_variables (generator_g toy_trainer)))
             (trainable_variables (generator_g toy_trainer)))
       = Inr (generator_g_optimizer toy_trainer_after_step,
              trainable_variables (generator_g toy_trainer_after_step))
   \<and> (\<exists>self''. train_step toy_framework toy_trainer (pixel 0) (pixel 1)
          = Inr ((disc_x_loss toy_tape, total_gen_g_loss toy_tape), self''))"
proof -
  note h = toy_train_step
  note inst = train_step_returns_losses [of toy_framework toy_trainer "pixel 0" "pixel 1"
      "(Num ((ln 2 + (1 + ln (1 + exp (- 1)))) / 2), Num (ln 2))" toy_trainer_after_step
      "scale_model 1" "scale_model 1" "scale_model 1" "scale_model 1" "2 / 10 ^ 4" "0.5" "0.999"
      "Some ''ckpt''" toy_tape
      "generator_g_optimizer toy_trainer_after_step"
      "trainable_variables (generator_g toy_trainer_after_step)"
      "generator_f_optimizer toy_trainer_after_step"
      "trainable_variables (generator_f toy_trainer_after_step)"
      "discriminator_x_optimizer toy_trainer_after_step"
      "trainable_variables (discriminator_x toy_trainer_after_step)"
      "discriminator_y_optimizer toy_trainer_after_step"
      "trainable_variables (discriminator_y toy_trainer_after_step)"]
  from inst h obtain t cx cy iy where
    "forward_pass toy_trainer (pixel 0) (pixel 1) = Inr t"
    "generator_loss toy_trainer (disc_fake_y t) = Inr (gen_g_loss t)"
    "calc_cycle_loss toy_trainer (pixel 0) (cycled_x t) = Inr cx"
    "calc_cycle_loss toy_trainer (pixel 1) (cycled_y t) = Inr cy"
    "identity_loss toy_trainer (pixel 1) (same_y t) = Inr iy"
    "total_gen_g_loss t = fadd (fadd (gen_g_loss t) (fadd cx cy)) iy"
    "(Num ((ln 2 + (1 + ln (1 + exp (- 1)))) / 2), Num (ln 2)) = (disc_x_loss t, total_gen_g_loss t)"
    "LAMBDA toy_trainer_after_step = LAMBDA toy_trainer"
    "LAMBDA toy_trainer = 10"
    unfolding toy_trainer_def by blast
  moreover from this have "t = toy_tape"
    by (simp add: toy_forward_pass)
  moreover from inst toy_forward_pass toy_apply_gradients_results
  have "\<exists>self''. train_step toy_framework toy_trainer (pixel 0) (pixel 1)
          = Inr ((disc_x_loss toy_tape, total_gen_g_loss toy_tape), self'')"
    by blast
  ultimately show ?thesis
    using h toy_forward_pass toy_apply_gradients_results(1) by auto
qed

text \<open>
  C2. For all tensors \<open>r\<close> and \<open>g\<close>, the trainer's \<open>discriminator_loss r g\<close> is
  \<open>0.5 * (BCE(ones, r) + BCE(zeros, g))\<close> and its \<open>generator_loss g\<close> is \<open>BCE(ones, g)\<close>, where
  BCE is the binary cross-entropy on logits that the constructor installs as the loss
  object; the two sides also raise on the same arguments.
\<close>

theorem discriminator_and_generator_loss_formula:
  "discriminator_loss (init gg gf dx dy lr b1 b2 prefix) r g = spec_discriminator_loss r g
   \<and> generator_loss (init gg gf dx dy lr b1 b2 prefix) g = spec_generator_loss g"
proof -
  have "fmul (fadd a b) (Num 0.5) = fmul (Num 0.5) (fadd a b)" for a b
    by (rule fmul_commute)
  then show ?thesis
    by (simp add: discriminator_loss_def generator_loss_def spec_discriminator_loss_def
        spec_generator_loss_def init_def)
qed

text \<open>
  C3, as the specification states it, fails on a tensor without entries: the mean over no
  entries is NaN, and so are both losses.
\<close>

theorem cycle_loss_of_empty_batch_is_nan:
  "calc_cycle_loss toy_trainer empty_batch empty_batch = Inr NaN
   \<and> calc_cycle_loss toy_trainer empty_batch empty_batch \<noteq> Inr (Num 0)
   \<and> identity_loss toy_trainer empty_batch empty_batch = Inr NaN
   \<and> identity_loss toy_trainer empty_batch empty_batch \<noteq> Inr (Num 0)"
  by (simp add: calc_cycle_loss_def identity_loss_def tf_subtract_self empty_batch_def
      tf_reduce_mean_empty)

text \<open>
  C3 (amended). For every tensor \<open>a\<close> with at least one entry, \<open>calc_cycle_loss a a\<close> and
  \<open>identity_loss a a\<close> are both 0: each is a scaled mean of the elementwise absolute
  difference of its arguments, which vanishes when the arguments are equal. For every
  tensor \<open>a\<close> without entries (a dimension of size 0) both are NaN.
\<close>

theorem cycle_and_identity_loss_of_equal_arguments:
  "(prod_list (shape a) \<noteq> 0
      \<longrightarrow> calc_cycle_loss self a a = Inr (Num 0) \<and> identity_loss self a a = Inr (Num 0))
   \<and> (prod_list (shape a) = 0
      \<longrightarrow> calc_cycle_loss self a a = Inr NaN \<and> identity_loss self a a = Inr NaN)"
  by (simp add: calc_cycle_loss_def identity_loss_def tf_subtract_self tf_reduce_mean_zeros
      tf_reduce_mean_empty)

theorem cycle_and_identity_loss_of_equal_arguments_witness:
  "prod_list (shape (pixel 0.25)) \<noteq> 0
   \<and> calc_cycle_loss toy_trainer (pixel 0.25) (pixel 0.25) = Inr (Num 0)
   \<and> identity_loss toy_trainer (pixel 0.25) (pixel 0.25) = Inr (Num 0)
   \<and> prod_list (shape empty_batch) = 0
   \<and> calc_cycle_loss toy_trainer empty_batch empty_batch = Inr NaN
   \<and> identity_loss toy_trainer empty_batch empty_batch = Inr NaN"
proof -
  have h: "prod_list (shape (pixel 0.25)) \<noteq> 0"
    by (simp add: pixel_def)
  have e: "prod_list (shape empty_batch) = 0"
    by (simp add: empty_batch_def)
  from cycle_and_identity_loss_of_equal_arguments [of "pixel 0.25" toy_trainer]
    cycle_and_identity_loss_of_equal_arguments [of empty_batch toy_trainer] h e
  show ?thesis by simp
qed







text \<open>
  C6. A trainer constructed with a checkpoint prefix never stores it, so \<open>save\<close> without an
  explicit prefix raises \<^verbatim>\<open>AttributeError\<close> instead of writing a checkpoint under the
  configured prefix.
\<close>

theorem save_without_prefix_raises:
  "save (init gg gf dx dy lr b1 b2 (Some ''ckpt'')) files None = Inl AttributeError"
  by (simp add: save_def init_def)

text \<open>
  C7. Whenever \<open>train\<close> returns after \<open>epochs\<close> epochs, it returns the epoch indices
  \<open>1..epochs\<close> and two lists of that length, and the entries for epoch \<open>e\<close> are the pair
  that \<open>train_step\<close> returned on the last batch of that epoch, in the state that the earlier
  epochs and the earlier batches of the epoch left: no other batch of the epoch enters.
  And it does return when both datasets have a batch and, in every epoch, all steps
  succeed and the display calls (clearing the output, drawing the sample) return.
\<close>

theorem train_returns_last_batch_losses:
  "(train tf ui self train_img train_tar epochs
      = Inr ((epochs_out, gen_losses, disc_losses), self')
      \<longrightarrow> epochs_out = [1..epochs]
        \<and> length gen_losses = nat epochs \<and> length disc_losses = nat epochs
        \<and> (\<forall>e < nat epochs. \<exists>s0 s1 s2.
              zip train_img train_tar \<noteq> []
            \<and> after_epochs tf self (zip train_img train_tar) e = Inr s0
            \<and> steps tf s0 (butlast (zip train_img train_tar)) = Inr s1
            \<and> train_step tf s1 (fst (last (zip train_img train_tar)))
                 (snd (last (zip train_img train_tar)))
                = Inr ((disc_losses ! e, gen_losses ! e), s2)))
   \<and> (train_img \<noteq> [] \<and> train_tar \<noteq> []
       \<and> clear_output ui True = Inr ()
       \<and> (\<forall>e < nat epochs. \<exists>s.
              after_epochs tf self (zip train_img train_tar) (Suc e) = Inr s
            \<and> generate_images ui s (generator_g s) (hd train_img) = Inr ())
      \<longrightarrow> (\<exists>result self''. train tf ui self train_img train_tar epochs = Inr (result, self'')))"
  using train_result_trace [of tf ui self train_img train_tar epochs epochs_out gen_losses
      disc_losses self']
    train_returns_when_steps_succeed [of train_img train_tar ui epochs tf self]
  by blast

theorem train_returns_last_batch_losses_witness:
  "train toy_framework toy_display toy_trainer [pixel 0] [pixel 1] 1
     = Inr (([1], [Num (ln 2)], [Num ((ln 2 + (1 + ln (1 + exp (- 1)))) / 2)]),
            toy_trainer_after_step)
   \<and> [1] = [1..(1::int)]
   \<and> (0::nat) < nat 1
   \<and> (\<exists>s0 s1 s2.
        after_epochs toy_framework toy_trainer (zip [pixel 0] [pixel 1]) 0 = Inr s0
      \<and> steps toy_framework s0 (butlast (zip [pixel 0] [pixel 1])) = Inr s1
      \<and> train_step toy_framework s1 (fst (last (zip [pixel 0] [pixel 1])))
           (snd (last (zip [pixel 0] [pixel 1])))
          = Inr (([Num ((ln 2 + (1 + ln (1 + exp (- 1)))) / 2)] ! 0, [Num (ln 2)] ! 0), s2))
   \<and> [pixel 0] \<noteq> [] \<and> [pixel 1] \<noteq> []
   \<and> clear_output toy_display True = Inr ()
   \<and> after_epochs toy_framework toy_trainer (zip [pixel 0] [pixel 1]) (Suc 0)
       = Inr toy_trainer_after_step
   \<and> generate_images toy_display toy_trainer_after_step (generator_g toy_trainer_after_step)
        (hd [pixel 0]) = Inr ()
   \<and> (\<exists>result self''.
        train toy_framework toy_display toy_trainer [pixel 0] [pixel 1] 1 = Inr (result, self''))"
proof -
  have e: "(0::nat) < nat 1"
    by simp
  have a: "after_epochs toy_framework toy_trainer (zip [pixel 0] [pixel 1]) (Suc 0)
       = Inr toy_trainer_after_step"
    by (simp add: toy_train_step)
  have g: "generate_images toy_display toy_trainer_after_step
       (generator_g toy_trainer_after_step) (hd [pixel 0]) = Inr ()"
    using toy_generate_images by simp
  note inst = train_returns_last_batch_losses [of toy_framework toy_display toy_trainer
      "[pixel 0]" "[pixel 1]" 1 "[1]" "[Num (ln 2)]"
      "[Num ((ln 2 + (1 + ln (1 + exp (- 1)))) / 2)]" toy_trainer_after_step]
  from inst toy_train e
  have "\<exists>s0 s1 s2.
        after_epochs toy_framework toy_trainer (zip [pixel 0] [pixel 1]) 0 = Inr s0
      \<and> steps toy_framework s0 (butlast (zip [pixel 0] [pixel 1])) = Inr s1
      \<and> train_step toy_framework s1 (fst (last (zip [pixel 0] [pixel 1])))
           (snd (last (zip [pixel 0] [pixel 1])))
          = Inr (([Num ((ln 2 + (1 + ln (1 + exp (- 1)))) / 2)] ! 0, [Num (ln 2)] ! 0), s2)"
    by blast
  with toy_train e a g toy_clear_output show ?thesis
    by auto
qed



text \<open>
  C9. The PatchGAN discriminator builder raises the unbound-name error when the lower-case
  form of \<open>norm_type\<close> is neither \<open>batchnorm\<close> nor \<open>instancenorm\<close>, and it returns a model
  when it is one of the two.
\<close>

theorem discriminator_norm_type:
  "(lower norm_type \<noteq> ''batchnorm'' \<and> lower norm_type \<noteq> ''instancenorm''
      \<longrightarrow> discriminator norm_type target = Inl UnboundLocalError)
   \<and> (lower norm_type = ''batchnorm'' \<or> lower norm_type = ''instancenorm''
      \<longrightarrow> (\<exists>m. discriminator norm_type target = Inr m))"
  by (simp add: discriminator_def Let_def)

theorem discriminator_norm_type_witness:
  "lower ''LayerNorm'' \<noteq> ''batchnorm'' \<and> lower ''LayerNorm'' \<noteq> ''instancenorm''
   \<and> discriminator ''LayerNorm'' True = Inl UnboundLocalError
   \<and> lower ''InstanceNorm'' = ''instancenorm''
   \<and> (\<exists>m. discriminator ''InstanceNorm'' False = Inr m)"
  using discriminator_norm_type [of "''LayerNorm''" True]
    discriminator_norm_type [of "''InstanceNorm''" False]
  by (simp add: lower_examples)

text \<open>
  C10. The constructor ignores \<^verbatim>\<open>beta_2\<close>: two trainers built from the same arguments
  but different values of it are the same trainer, each of the four optimizers is the Adam
  optimizer made from the learning rate and \<^verbatim>\<open>beta_1\<close> alone, and so every step and
  every training run of the two trainers is the same.
\<close>

theorem init_ignores_beta_2:
  "init gg gf dx dy lr b1 b2 prefix = init gg gf dx dy lr b1 b2' prefix
   \<and> generator_g_optimizer (init gg gf dx dy lr b1 b2 prefix) = Adam lr b1
   \<and> generator_f_optimizer (init gg gf dx dy lr b1 b2 prefix) = Adam lr b1
   \<and> discriminator_x_optimizer (init gg gf dx dy lr b1 b2 prefix) = Adam lr b1
   \<and> discriminator_y_optimizer (init gg gf dx dy lr b1 b2 prefix) = Adam lr b1
   \<and> train_step tf (init gg gf dx dy lr b1 b2 prefix) real_x real_y
       = train_step tf (init gg gf dx dy lr b1 b2' prefix) real_x real_y
   \<and> train tf ui (init gg gf dx dy lr b1 b2 prefix) train_img train_tar epochs
       = train tf ui (init gg gf dx dy lr b1 b2' prefix) train_img train_tar epochs"
  by (simp add: init_def)

end
